theory Spec2Isabelle
  imports Main
begin

section \<open>The VM scheduler of src/main.py\<close>

text \<open>
  The module reacts to a scale-up or scale-down request: it lists the instances of some
  zones, keeps those whose labels match a selector, and stops, suspends, starts or
  resumes each one that is not yet in the wanted power state.

  Strings are Python \<open>str\<close> values over ASCII. Logging is not modelled: no value the
  functions return depends on it. The entry point \<open>vm_scheduler\<close> decodes the message
  and passes its four fields to \<open>process_scale_action\<close>, which is the run studied here.
\<close>

subsection \<open>Data\<close>

text \<open>
  One entry of \<open>target_labels\<close>: a dict holding a string under \<open>'key'\<close> and a string
  under \<open>'value'\<close>, so that \<open>label.get('key')\<close> and \<open>label.get('value')\<close> are those
  strings.
\<close>

record label =
  label_key :: string
  label_value :: string

text \<open>
  The label mapping of an instance (\<open>instance.labels\<close>) is a dict from strings to
  strings, kept as an association list: \<open>not instance_labels\<close> is the test for the empty
  list and \<open>instance_labels.get(key)\<close> is \<open>map_of\<close>.
\<close>

type_synonym labels = "(string \<times> string) list"

subsection \<open>\<open>VMScheduler._matches_labels\<close>\<close>

text \<open>
  The loop \<open>for label in target_labels\<close> returns False at the first label whose value
  differs from the instance's, and True when it runs to its end.
\<close>

fun matches_loop :: "labels \<Rightarrow> label list \<Rightarrow> bool" where
  "matches_loop instance_labels [] = True"
| "matches_loop instance_labels (l # ls) =
     (if map_of instance_labels (label_key l) \<noteq> Some (label_value l) then False
      else matches_loop instance_labels ls)"

definition matches_labels :: "labels \<Rightarrow> label list \<Rightarrow> bool" where
  "matches_labels instance_labels target_labels =
     (if instance_labels = [] then False
      else matches_loop instance_labels target_labels)"

subsection \<open>The control plane\<close>

text \<open>
  An instance as \<open>instances_client.list\<close> yields it: the fields the code reads.
\<close>

record vm_instance =
  inst_name :: string
  inst_labels :: labels
  inst_status :: string

text \<open>
  The requests the code sends to \<open>compute_v1.InstancesClient\<close>: listing a zone of a
  project, and one of four operations on an instance of a zone of a project.
\<close>

datatype operation = Stop | Start | Suspend | Resume

datatype call =
  ListCall string string
| OpCall operation string string string

text \<open>
  The client is outside the repository, so it is a parameter, taken as constructed
  (\<open>compute_v1.InstancesClient()\<close> has returned). Its answers may depend on the requests
  sent before (the list \<open>call list\<close>, oldest first), which covers every deterministic
  control plane with a state of its own.

  \<open>cp_list\<close> answers with the instances the pager yields to the \<open>for\<close> loop and,
  when the listing raises, the exception's text: the request itself or the fetch of a
  later page may raise, in the second case after some instances have been yielded.
  \<open>cp_operate\<close> answers \<open>Inr\<close> the operation's name, or \<open>Inl\<close> the text of the
  exception raised.
\<close>

record control_plane =
  cp_list :: "call list \<Rightarrow> string \<Rightarrow> string \<Rightarrow> vm_instance list \<times> string option"
  cp_operate :: "call list \<Rightarrow> operation \<Rightarrow> string \<Rightarrow> string \<Rightarrow> string \<Rightarrow> string + string"

subsection \<open>\<open>VMScheduler.get_instances_by_labels\<close>\<close>

text \<open>The dict \<open>{'name': ..., 'zone': ..., 'status': ...}\<close> appended for a match.\<close>

record instance_info =
  name :: string
  zone :: string
  status :: string

text \<open>
  The body of \<open>for zone in zones\<close>: every yielded instance that matches is appended;
  an exception ends the zone's inner loop and is caught (and logged), so what was
  appended before it stays.
\<close>

definition list_zone ::
  "control_plane \<Rightarrow> string \<Rightarrow> call list \<Rightarrow> string \<Rightarrow> label list \<Rightarrow> instance_info list" where
  "list_zone cp project_id tr z target_labels =
     map (\<lambda>i. \<lparr>name = inst_name i, zone = z, status = inst_status i\<rparr>)
       (filter (\<lambda>i. matches_labels (inst_labels i) target_labels)
         (fst (cp_list cp tr project_id z)))"

fun zones_loop ::
  "control_plane \<Rightarrow> string \<Rightarrow> label list \<Rightarrow> string list \<Rightarrow>
   instance_info list \<times> call list \<Rightarrow> instance_info list \<times> call list" where
  "zones_loop cp project_id target_labels [] (instances, tr) = (instances, tr)"
| "zones_loop cp project_id target_labels (z # zs) (instances, tr) =
     zones_loop cp project_id target_labels zs
       (instances @ list_zone cp project_id tr z target_labels,
        tr @ [ListCall project_id z])"

text \<open>The result is the list of instances found and the requests sent, after \<open>tr\<close>.\<close>

definition get_instances_by_labels ::
  "control_plane \<Rightarrow> string \<Rightarrow> call list \<Rightarrow> string list \<Rightarrow> label list \<Rightarrow>
   instance_info list \<times> call list" where
  "get_instances_by_labels cp project_id tr zones target_labels =
     zones_loop cp project_id target_labels zones ([], tr)"

subsection \<open>\<open>stop_instance\<close>, \<open>start_instance\<close>, \<open>suspend_instance\<close>, \<open>resume_instance\<close>\<close>

text \<open>
  The dict a method returns: \<open>{'status': 'success', 'operation': n}\<close> or
  \<open>{'status': 'error', 'message': m}\<close>.
\<close>

datatype op_result = Success string | Error string

definition run_operation ::
  "operation \<Rightarrow> control_plane \<Rightarrow> string \<Rightarrow> call list \<Rightarrow> string \<Rightarrow> string \<Rightarrow>
   op_result \<times> call list" where
  "run_operation opn cp project_id tr z n =
     ((case cp_operate cp tr opn project_id z n of
         Inr operation_name \<Rightarrow> Success operation_name
       | Inl e \<Rightarrow> Error e),
      tr @ [OpCall opn project_id z n])"

definition stop_instance ::
  "control_plane \<Rightarrow> string \<Rightarrow> call list \<Rightarrow> string \<Rightarrow> string \<Rightarrow> op_result \<times> call list" where
  "stop_instance = run_operation Stop"

definition start_instance ::
  "control_plane \<Rightarrow> string \<Rightarrow> call list \<Rightarrow> string \<Rightarrow> string \<Rightarrow> op_result \<times> call list" where
  "start_instance = run_operation Start"

definition suspend_instance ::
  "control_plane \<Rightarrow> string \<Rightarrow> call list \<Rightarrow> string \<Rightarrow> string \<Rightarrow> op_result \<times> call list" where
  "suspend_instance = run_operation Suspend"

definition resume_instance ::
  "control_plane \<Rightarrow> string \<Rightarrow> call list \<Rightarrow> string \<Rightarrow> string \<Rightarrow> op_result \<times> call list" where
  "resume_instance = run_operation Resume"

subsection \<open>The environment and the strings read from it\<close>

text \<open>The variables \<open>os.environ.get\<close> reads; \<open>None\<close> is an unset variable.\<close>

record environment =
  GCP_PROJECT :: "string option"
  VM_LABELS :: "string option"
  VM_ZONES :: "string option"
  SCALE_DOWN_ACTION :: "string option"
  SCALE_UP_ACTION :: "string option"

definition environ_get :: "string option \<Rightarrow> string \<Rightarrow> string" where
  "environ_get var dflt = (case var of None \<Rightarrow> dflt | Some s \<Rightarrow> s)"

text \<open>\<open>s.split(sep)\<close> for a separator of one character: never the empty list.\<close>

fun split_sep :: "char \<Rightarrow> string \<Rightarrow> string list" where
  "split_sep c [] = [[]]"
| "split_sep c (x # xs) =
     (if x = c then [] # split_sep c xs
      else (case split_sep c xs of [] \<Rightarrow> [[x]] | w # ws \<Rightarrow> (x # w) # ws))"

text \<open>\<open>s.split(sep, 1)\<close> for a string that holds the separator.\<close>

definition split_first :: "char \<Rightarrow> string \<Rightarrow> string \<times> string" where
  "split_first c s = (takeWhile (\<lambda>x. x \<noteq> c) s, tl (dropWhile (\<lambda>x. x \<noteq> c) s))"

text \<open>The ASCII characters \<open>str.isspace\<close> accepts, and \<open>s.strip()\<close>.\<close>

definition isspace :: "char \<Rightarrow> bool" where
  "isspace c = (c \<in> set [CHR 0x09, CHR 0x0A, CHR 0x0B, CHR 0x0C, CHR 0x0D,
                          CHR 0x1C, CHR 0x1D, CHR 0x1E, CHR 0x1F, CHR 0x20])"

definition strip :: "string \<Rightarrow> string" where
  "strip s = rev (dropWhile isspace (rev (dropWhile isspace s)))"

text \<open>
  Lines 147 to 152: the labels of the string \<open>VM_LABELS\<close>; a piece without a colon is
  dropped.
\<close>

definition labels_of_str :: "string \<Rightarrow> label list" where
  "labels_of_str vm_labels_str =
     map (\<lambda>l. case split_first CHR '':'' l of
                 (k, v) \<Rightarrow> \<lparr>label_key = strip k, label_value = strip v\<rparr>)
       (filter (\<lambda>l. CHR '':'' \<in> set l) (split_sep CHR '','' vm_labels_str))"

definition zones_of_str :: "string \<Rightarrow> string list" where
  "zones_of_str zones_str = map strip (split_sep CHR '','' zones_str)"

text \<open>
  \<open>not x\<close> for an optional string or an optional list: true for \<open>None\<close> and for
  the empty value. The three defaults of lines 135 to 156 are taken when it holds.
\<close>

definition falsy :: "'a list option \<Rightarrow> bool" where
  "falsy x = (case x of None \<Rightarrow> True | Some v \<Rightarrow> v = [])"

definition resolve_project :: "environment \<Rightarrow> string option \<Rightarrow> string option" where
  "resolve_project env project_id =
     (if falsy project_id then GCP_PROJECT env else project_id)"

definition resolve_labels :: "environment \<Rightarrow> label list option \<Rightarrow> label list" where
  "resolve_labels env vm_labels =
     (case vm_labels of
        None \<Rightarrow> labels_of_str (environ_get (VM_LABELS env) ''auto-schedule:true'')
      | Some ls \<Rightarrow>
          if ls = [] then labels_of_str (environ_get (VM_LABELS env) ''auto-schedule:true'')
          else ls)"

definition resolve_zones :: "environment \<Rightarrow> string list option \<Rightarrow> string list" where
  "resolve_zones env zones =
     (case zones of
        None \<Rightarrow> zones_of_str (environ_get (VM_ZONES env) ''us-central1-a,us-central1-b'')
      | Some zs \<Rightarrow>
          if zs = [] then zones_of_str (environ_get (VM_ZONES env) ''us-central1-a,us-central1-b'')
          else zs)"

subsection \<open>\<open>process_scale_action\<close>\<close>

text \<open>One entry of \<open>results\<close>: \<open>{'instance', 'zone', 'action', 'result'}\<close>.\<close>

record outcome =
  o_instance :: string
  o_zone :: string
  o_action :: string
  o_result :: op_result

text \<open>
  What the function returns: \<open>{'error': e}\<close>, or \<open>{'processed': n, 'results': rs}\<close>
  with, for an empty discovery, \<open>'message': m\<close> as well.
\<close>

datatype response =
  Failure string
| Summary nat "outcome list" "string option"

text \<open>Lines 172 to 177: the instance is already in the desired state.\<close>

definition skips :: "string \<Rightarrow> string \<Rightarrow> bool" where
  "skips action st =
     (if action = ''scale_down'' \<and> st \<in> set [''STOPPED'', ''TERMINATED'', ''SUSPENDED'']
      then True
      else if action = ''scale_up'' \<and> st = ''RUNNING'' then True
      else False)"

text \<open>Lines 179 to 192: the operation for an instance that is not skipped.\<close>

definition perform ::
  "environment \<Rightarrow> control_plane \<Rightarrow> string \<Rightarrow> string \<Rightarrow> call list \<Rightarrow> string \<Rightarrow> string \<Rightarrow>
   op_result \<times> call list" where
  "perform env cp project_id action tr z n =
     (if action = ''scale_down'' then
        (if environ_get (SCALE_DOWN_ACTION env) ''STOP'' = ''SUSPEND''
         then suspend_instance cp project_id tr z n
         else stop_instance cp project_id tr z n)
      else if action = ''scale_up'' then
        (if environ_get (SCALE_UP_ACTION env) ''START'' = ''RESUME''
         then resume_instance cp project_id tr z n
         else start_instance cp project_id tr z n)
      else (Error (''Unknown action: '' @ action), tr))"

text \<open>
  The body of \<open>for instance in instances\<close>: \<open>None\<close> when the instance is skipped
  (\<open>continue\<close>), else the entry appended to \<open>results\<close>.
\<close>

definition process_instance ::
  "environment \<Rightarrow> control_plane \<Rightarrow> string \<Rightarrow> string \<Rightarrow> call list \<Rightarrow> instance_info \<Rightarrow>
   outcome option \<times> call list" where
  "process_instance env cp project_id action tr i =
     (if skips action (status i) then (None, tr)
      else (case perform env cp project_id action tr (zone i) (name i) of
              (result, tr') \<Rightarrow>
                (Some \<lparr>o_instance = name i, o_zone = zone i, o_action = action,
                        o_result = result\<rparr>, tr')))"

fun instances_loop ::
  "environment \<Rightarrow> control_plane \<Rightarrow> string \<Rightarrow> string \<Rightarrow> instance_info list \<Rightarrow>
   outcome list \<times> call list \<Rightarrow> outcome list \<times> call list" where
  "instances_loop env cp project_id action [] (results, tr) = (results, tr)"
| "instances_loop env cp project_id action (i # is) (results, tr) =
     (case process_instance env cp project_id action tr i of
        (None, tr') \<Rightarrow> instances_loop env cp project_id action is (results, tr')
      | (Some r, tr') \<Rightarrow> instances_loop env cp project_id action is (results @ [r], tr'))"

text \<open>
  The function returns its dict; the second component is the list of requests it sent
  to the control plane, oldest first.
\<close>

definition process_scale_action ::
  "environment \<Rightarrow> control_plane \<Rightarrow> string \<Rightarrow> string option \<Rightarrow> label list option \<Rightarrow>
   string list option \<Rightarrow> response \<times> call list" where
  "process_scale_action env cp action project_id vm_labels zones =
     (case resolve_project env project_id of
        None \<Rightarrow> (Failure ''Project ID not configured'', [])
      | Some p \<Rightarrow>
          if p = [] then (Failure ''Project ID not configured'', [])
          else
            (case get_instances_by_labels cp p []
                    (resolve_zones env zones) (resolve_labels env vm_labels) of
               (instances, tr) \<Rightarrow>
                 if instances = [] then (Summary 0 [] (Some ''No instances found''), tr)
                 else
                   (case instances_loop env cp p action instances ([], tr) of
                      (results, tr') \<Rightarrow> (Summary (length results) results None, tr'))))"

text \<open>
  The operation lines 179 to 190 choose for a request to scale down or up: the variable
  \<open>SCALE_DOWN_ACTION\<close> (default \<open>STOP\<close>) selects suspend when it is \<open>SUSPEND\<close> and
  stop otherwise; \<open>SCALE_UP_ACTION\<close> (default \<open>START\<close>) selects resume when it is
  \<open>RESUME\<close> and start otherwise. It names the choice in the statements below.
\<close>

definition configured_operation :: "environment \<Rightarrow> string \<Rightarrow> operation" where
  "configured_operation env action =
     (if action = ''scale_down'' then
        (if environ_get (SCALE_DOWN_ACTION env) ''STOP'' = ''SUSPEND'' then Suspend else Stop)
      else
        (if environ_get (SCALE_UP_ACTION env) ''START'' = ''RESUME'' then Resume else Start))"

subsection \<open>The matcher as the specification words it\<close>

text \<open>
  Section 4.1 of the specification: every (key, value) pair of the selector is present in
  the instance's label mapping with an equal value. This definition follows those
  words, not the code; the code's matcher is \<open>matches_labels\<close> above.
\<close>

definition matches_spec :: "labels \<Rightarrow> label list \<Rightarrow> bool" where
  "matches_spec L S = list_all (\<lambda>l. map_of L (label_key l) = Some (label_value l)) S"

section \<open>Properties\<close>

subsection \<open>The label matcher\<close>

lemma matches_loop_spec: "matches_loop L S = matches_spec L S"
  by (induction S) (auto simp: matches_spec_def)

text \<open>
  C4, as the specification states it: the matcher is true exactly when every pair of the
  selector is present in the label mapping. It fails for the empty mapping and the
  empty selector: no pair is missing, yet line 51 answers False for an empty mapping
  before any pair is looked at.
\<close>

theorem matches_labels_empty_counterexample:
  "matches_labels [] [] \<noteq> matches_spec [] []"
  by (simp add: matches_labels_def matches_spec_def)

text \<open>
  C4, amended: the matcher is true exactly when the label mapping is not empty and every
  pair of the selector is present in it with an equal value; for an empty mapping it is
  false whatever the selector.
\<close>

theorem matches_labels_iff:
  "(matches_labels L S \<longleftrightarrow> L \<noteq> [] \<and> matches_spec L S) \<and> \<not> matches_labels [] S"
  by (simp add: matches_labels_def matches_loop_spec)

theorem matches_labels_iff_witness:
  "matches_labels [(''env'', ''dev''), (''auto-schedule'', ''true'')]
     [\<lparr>label_key = ''auto-schedule'', label_value = ''true''\<rparr>]
   \<and> \<not> matches_labels [(''env'', ''dev''), (''auto-schedule'', ''True'')]
     [\<lparr>label_key = ''auto-schedule'', label_value = ''true''\<rparr>]
   \<and> \<not> matches_labels [] [\<lparr>label_key = ''auto-schedule'', label_value = ''true''\<rparr>]"
  using matches_labels_iff [of "[(''env'', ''dev''), (''auto-schedule'', ''true'')]"
      "[\<lparr>label_key = ''auto-schedule'', label_value = ''true''\<rparr>]"]
    matches_labels_iff [of "[(''env'', ''dev''), (''auto-schedule'', ''True'')]"
      "[\<lparr>label_key = ''auto-schedule'', label_value = ''true''\<rparr>]"]
  by (simp add: matches_spec_def)

subsection \<open>No project identifier\<close>

text \<open>
  C9: when neither the request nor \<open>GCP_PROJECT\<close> gives a project identifier (each is
  \<open>None\<close> or the empty string), the run returns the dict
  \<open>{'error': 'Project ID not configured'}\<close> and has sent no request to the control
  plane: no zone was listed.
\<close>

theorem no_project_no_discovery:
  "falsy project_id \<Longrightarrow> falsy (GCP_PROJECT env) \<Longrightarrow>
   process_scale_action env cp action project_id vm_labels zones =
     (Failure ''Project ID not configured'', [])"
  by (auto simp: process_scale_action_def resolve_project_def falsy_def split: option.splits)

theorem no_project_no_discovery_witness:
  "falsy (Some '''') \<and> falsy (None :: string option) \<and>
   process_scale_action
     \<lparr>GCP_PROJECT = None, VM_LABELS = None, VM_ZONES = None,
      SCALE_DOWN_ACTION = None, SCALE_UP_ACTION = None\<rparr>
     \<lparr>cp_list = (\<lambda>tr p z. ([\<lparr>inst_name = ''a'', inst_labels = [(''auto-schedule'', ''true'')],
                                inst_status = ''RUNNING''\<rparr>], None)),
      cp_operate = (\<lambda>tr opn p z n. Inr ''op'')\<rparr>
     ''scale_down'' (Some '''') None None =
   (Failure ''Project ID not configured'', [])"
  using no_project_no_discovery [of "Some ''''"
     "\<lparr>GCP_PROJECT = None, VM_LABELS = None, VM_ZONES = None,
      SCALE_DOWN_ACTION = None, SCALE_UP_ACTION = None\<rparr>"]
  by (simp add: falsy_def)

subsection \<open>The two loops, in closed form\<close>

lemma upt_0_Suc_map: "map f [0..<Suc n] = f 0 # map (\<lambda>k. f (Suc k)) [0..<n]"
proof -
  have "[0..<Suc n] = 0 # map Suc [0..<n]"
    by (simp add: upt_conv_Cons map_Suc_upt del: upt_Suc)
  then show ?thesis by (simp add: comp_def del: upt_Suc)
qed

text \<open>
  Discovery lists the zones in the order given, each zone once, and appends what each
  listing contributes; the zone at index \<open>k\<close> is listed after the \<open>k\<close> zones before it.
\<close>

lemma zones_loop_eq:
  "zones_loop cp p ls zs (acc, tr) =
     (acc @ concat (map (\<lambda>k. list_zone cp p (tr @ map (ListCall p) (take k zs)) (zs ! k) ls)
                      [0..<length zs]),
      tr @ map (ListCall p) zs)"
proof (induction zs arbitrary: acc tr)
  case Nil
  then show ?case by simp
next
  case (Cons z zs)
  show ?case
    by (simp add: Cons.IH upt_0_Suc_map del: upt_Suc)
qed

lemma discovery_trace:
  "get_instances_by_labels cp p [] zs ls = (instances, tr) \<Longrightarrow> tr = map (ListCall p) zs"
  by (simp add: get_instances_by_labels_def zones_loop_eq)

lemma perform_known:
  "action = ''scale_down'' \<or> action = ''scale_up'' \<Longrightarrow>
   perform env cp p action tr z n =
     ((case cp_operate cp tr (configured_operation env action) p z n of
         Inr operation_name \<Rightarrow> Success operation_name
       | Inl e \<Rightarrow> Error e),
      tr @ [OpCall (configured_operation env action) p z n])"
  by (auto simp: perform_def configured_operation_def run_operation_def
      stop_instance_def start_instance_def suspend_instance_def resume_instance_def)

lemma perform_unknown:
  "action \<noteq> ''scale_down'' \<Longrightarrow> action \<noteq> ''scale_up'' \<Longrightarrow>
   perform env cp p action tr z n = (Error (''Unknown action: '' @ action), tr)"
  by (simp add: perform_def)

lemma skips_unknown:
  "action \<noteq> ''scale_down'' \<Longrightarrow> action \<noteq> ''scale_up'' \<Longrightarrow> \<not> skips action st"
  by (simp add: skips_def)

lemma instances_loop_skip_all:
  "\<forall>i \<in> set is. skips action (status i) \<Longrightarrow>
   instances_loop env cp p action is (rs, tr) = (rs, tr)"
  by (induction "is" arbitrary: rs tr) (simp_all add: process_instance_def)

lemma instances_loop_unknown:
  "action \<noteq> ''scale_down'' \<Longrightarrow> action \<noteq> ''scale_up'' \<Longrightarrow>
   instances_loop env cp p action is (rs, tr) =
     (rs @ map (\<lambda>i. \<lparr>o_instance = name i, o_zone = zone i, o_action = action,
                       o_result = Error (''Unknown action: '' @ action)\<rparr>) is, tr)"
  by (induction "is" arbitrary: rs tr)
     (simp_all add: process_instance_def perform_unknown skips_unknown)

lemma instances_loop_recorded:
  "instances_loop env cp p action is (rs, tr) = (rs', tr') \<Longrightarrow>
   map (\<lambda>r. (o_instance r, o_zone r)) rs' =
     map (\<lambda>r. (o_instance r, o_zone r)) rs @
     map (\<lambda>i. (name i, zone i)) (filter (\<lambda>i. \<not> skips action (status i)) is)"
proof (induction "is" arbitrary: rs tr)
  case Nil
  then show ?case by simp
next
  case (Cons i "is")
  then show ?case
    by (cases "skips action (status i)")
       (auto simp: process_instance_def split: prod.splits)
qed

text \<open>
  When every instance needs the operation, the entry at index \<open>k\<close> is the answer of
  the control plane to the request for the instance at index \<open>k\<close>, sent after the
  requests for the \<open>k\<close> instances before it.
\<close>

lemma instances_loop_all_act:
  "action = ''scale_down'' \<or> action = ''scale_up'' \<Longrightarrow>
   \<forall>i \<in> set is. \<not> skips action (status i) \<Longrightarrow>
   instances_loop env cp p action is (rs, tr) =
     (rs @ map (\<lambda>k. \<lparr>o_instance = name (is ! k), o_zone = zone (is ! k), o_action = action,
                 o_result =
                   (case cp_operate cp
                           (tr @ map (\<lambda>i. OpCall (configured_operation env action) p (zone i) (name i))
                                   (take k is))
                           (configured_operation env action) p (zone (is ! k)) (name (is ! k)) of
                      Inr operation_name \<Rightarrow> Success operation_name
                    | Inl e \<Rightarrow> Error e)\<rparr>) [0..<length is],
      tr @ map (\<lambda>i. OpCall (configured_operation env action) p (zone i) (name i)) is)"
proof (induction "is" arbitrary: rs tr)
  case Nil
  then show ?case by simp
next
  case (Cons i "is")
  then show ?case
    by (simp add: process_instance_def perform_known upt_0_Suc_map del: upt_Suc)
qed

text \<open>The run, once a project identifier is resolved and discovery has answered.\<close>

lemma run_after_discovery:
  assumes "resolve_project env project_id = Some p" and "p \<noteq> []"
    and "get_instances_by_labels cp p [] (resolve_zones env zones)
           (resolve_labels env vm_labels) = (instances, tr)"
  shows "process_scale_action env cp action project_id vm_labels zones =
     (if instances = [] then (Summary 0 [] (Some ''No instances found''), tr)
      else (Summary (length (fst (instances_loop env cp p action instances ([], tr))))
              (fst (instances_loop env cp p action instances ([], tr))) None,
            snd (instances_loop env cp p action instances ([], tr))))"
  using assms by (simp add: process_scale_action_def split: prod.splits)

lemma run_reaches_discovery:
  assumes "process_scale_action env cp action project_id vm_labels zones = (Summary n rs m, tr')"
  shows "\<exists>p. resolve_project env project_id = Some p \<and> p \<noteq> []"
  using assms by (auto simp: process_scale_action_def split: option.splits if_splits)

text \<open>
  What a run that reached discovery returns: the count is the length of the results, and
  the results are the entries of the instances that were not skipped.
\<close>

lemma run_records_unskipped:
  assumes "resolve_project env project_id = Some p" and "p \<noteq> []"
    and "get_instances_by_labels cp p [] (resolve_zones env zones)
           (resolve_labels env vm_labels) = (instances, tr)"
    and "process_scale_action env cp action project_id vm_labels zones =
           (Summary n rs m, tr')"
  shows "n = length rs \<and>
     map (\<lambda>r. (o_instance r, o_zone r)) rs =
       map (\<lambda>i. (name i, zone i)) (filter (\<lambda>i. \<not> skips action (status i)) instances)"
proof -
  obtain rs' tr'' where l: "instances_loop env cp p action instances ([], tr) = (rs', tr'')"
    by (cases "instances_loop env cp p action instances ([], tr)")
  have run: "(Summary n rs m, tr') =
      (if instances = [] then (Summary 0 [] (Some ''No instances found''), tr)
       else (Summary (length rs') rs' None, tr''))"
    using run_after_discovery [OF assms(1-3), of action] assms(4) l by simp
  have rec: "map (\<lambda>r. (o_instance r, o_zone r)) rs' =
      map (\<lambda>i. (name i, zone i)) (filter (\<lambda>i. \<not> skips action (status i)) instances)"
    using instances_loop_recorded [OF l] by simp
  show ?thesis
  proof (cases "instances = []")
    case True
    with run show ?thesis by simp
  next
    case False
    with run have "n = length rs'" "rs = rs'" by simp_all
    with rec show ?thesis by simp
  qed
qed

subsection \<open>The decision for one instance\<close>

text \<open>
  C3: the body of the loop follows the policy table. For a request to scale down, the
  instance is skipped (no entry, no request sent) exactly when its state is STOPPED,
  TERMINATED or SUSPENDED, and otherwise one request is sent for it: suspend when
  \<open>SCALE_DOWN_ACTION\<close> is \<open>SUSPEND\<close>, stop in every other configuration. For a
  request to scale up, it is skipped exactly when its state is RUNNING, and otherwise one
  request is sent: resume when \<open>SCALE_UP_ACTION\<close> is \<open>RESUME\<close>, else start.
\<close>

theorem decision_follows_policy_table:
  "(action = ''scale_down'' \<longrightarrow>
      (fst (process_instance env cp p action tr i) = None
         \<longleftrightarrow> status i \<in> set [''STOPPED'', ''TERMINATED'', ''SUSPENDED'']) \<and>
      snd (process_instance env cp p action tr i) =
        (if status i \<in> set [''STOPPED'', ''TERMINATED'', ''SUSPENDED''] then tr
         else tr @ [OpCall (if SCALE_DOWN_ACTION env = Some ''SUSPEND'' then Suspend else Stop)
                      p (zone i) (name i)])) \<and>
   (action = ''scale_up'' \<longrightarrow>
      (fst (process_instance env cp p action tr i) = None \<longleftrightarrow> status i = ''RUNNING'') \<and>
      snd (process_instance env cp p action tr i) =
        (if status i = ''RUNNING'' then tr
         else tr @ [OpCall (if SCALE_UP_ACTION env = Some ''RESUME'' then Resume else Start)
                      p (zone i) (name i)]))"
proof -
  have down: "configured_operation env ''scale_down'' =
      (if SCALE_DOWN_ACTION env = Some ''SUSPEND'' then Suspend else Stop)"
    by (simp add: configured_operation_def environ_get_def split: option.splits)
  have up: "configured_operation env ''scale_up'' =
      (if SCALE_UP_ACTION env = Some ''RESUME'' then Resume else Start)"
    by (simp add: configured_operation_def environ_get_def split: option.splits)
  have d: "action = ''scale_down'' \<Longrightarrow>
      skips action (status i) = (status i \<in> set [''STOPPED'', ''TERMINATED'', ''SUSPENDED''])"
    by (simp add: skips_def)
  have u: "action = ''scale_up'' \<Longrightarrow> skips action (status i) = (status i = ''RUNNING'')"
    by (simp add: skips_def)
  show ?thesis
  proof (intro conjI impI)
    assume a: "action = ''scale_down''"
    show "(fst (process_instance env cp p action tr i) = None)
        = (status i \<in> set [''STOPPED'', ''TERMINATED'', ''SUSPENDED''])"
      using d [OF a] by (simp add: process_instance_def split: prod.splits)
    show "snd (process_instance env cp p action tr i) =
        (if status i \<in> set [''STOPPED'', ''TERMINATED'', ''SUSPENDED''] then tr
         else tr @ [OpCall (if SCALE_DOWN_ACTION env = Some ''SUSPEND'' then Suspend else Stop)
                      p (zone i) (name i)])"
      using d [OF a] a down by (simp add: process_instance_def perform_known)
  next
    assume a: "action = ''scale_up''"
    show "(fst (process_instance env cp p action tr i) = None) = (status i = ''RUNNING'')"
      using u [OF a] by (simp add: process_instance_def split: prod.splits)
    show "snd (process_instance env cp p action tr i) =
        (if status i = ''RUNNING'' then tr
         else tr @ [OpCall (if SCALE_UP_ACTION env = Some ''RESUME'' then Resume else Start)
                      p (zone i) (name i)])"
      using u [OF a] a up by (simp add: process_instance_def perform_known)
  qed
qed

theorem decision_follows_policy_table_witness:
  "fst (process_instance
     \<lparr>GCP_PROJECT = None, VM_LABELS = None, VM_ZONES = None,
      SCALE_DOWN_ACTION = Some ''SUSPEND'', SCALE_UP_ACTION = None\<rparr>
     \<lparr>cp_list = (\<lambda>tr p z. ([], None)), cp_operate = (\<lambda>tr opn p z n. Inr ''op'')\<rparr>
     ''p'' ''scale_down'' [] \<lparr>name = ''a'', zone = ''z'', status = ''STOPPING''\<rparr>) \<noteq> None
   \<and> snd (process_instance
     \<lparr>GCP_PROJECT = None, VM_LABELS = None, VM_ZONES = None,
      SCALE_DOWN_ACTION = Some ''SUSPEND'', SCALE_UP_ACTION = None\<rparr>
     \<lparr>cp_list = (\<lambda>tr p z. ([], None)), cp_operate = (\<lambda>tr opn p z n. Inr ''op'')\<rparr>
     ''p'' ''scale_down'' [] \<lparr>name = ''a'', zone = ''z'', status = ''STOPPING''\<rparr>)
     = [OpCall Suspend ''p'' ''z'' ''a'']
   \<and> process_instance
     \<lparr>GCP_PROJECT = None, VM_LABELS = None, VM_ZONES = None,
      SCALE_DOWN_ACTION = None, SCALE_UP_ACTION = None\<rparr>
     \<lparr>cp_list = (\<lambda>tr p z. ([], None)), cp_operate = (\<lambda>tr opn p z n. Inr ''op'')\<rparr>
     ''p'' ''scale_up'' [] \<lparr>name = ''a'', zone = ''z'', status = ''RUNNING''\<rparr> = (None, [])
   \<and> snd (process_instance
     \<lparr>GCP_PROJECT = None, VM_LABELS = None, VM_ZONES = None,
      SCALE_DOWN_ACTION = None, SCALE_UP_ACTION = None\<rparr>
     \<lparr>cp_list = (\<lambda>tr p z. ([], None)), cp_operate = (\<lambda>tr opn p z n. Inr ''op'')\<rparr>
     ''p'' ''scale_up'' [] \<lparr>name = ''a'', zone = ''z'', status = ''TERMINATED''\<rparr>)
     = [OpCall Start ''p'' ''z'' ''a'']"
  using
    decision_follows_policy_table [of "''scale_down''"
      "\<lparr>GCP_PROJECT = None, VM_LABELS = None, VM_ZONES = None,
        SCALE_DOWN_ACTION = Some ''SUSPEND'', SCALE_UP_ACTION = None\<rparr>"
      "\<lparr>cp_list = (\<lambda>tr p z. ([], None)), cp_operate = (\<lambda>tr opn p z n. Inr ''op'')\<rparr>"
      "''p''" "[]" "\<lparr>name = ''a'', zone = ''z'', status = ''STOPPING''\<rparr>"]
    decision_follows_policy_table [of "''scale_up''"
      "\<lparr>GCP_PROJECT = None, VM_LABELS = None, VM_ZONES = None,
        SCALE_DOWN_ACTION = None, SCALE_UP_ACTION = None\<rparr>"
      "\<lparr>cp_list = (\<lambda>tr p z. ([], None)), cp_operate = (\<lambda>tr opn p z n. Inr ''op'')\<rparr>"
      "''p''" "[]" "\<lparr>name = ''a'', zone = ''z'', status = ''RUNNING''\<rparr>"]
    decision_follows_policy_table [of "''scale_up''"
      "\<lparr>GCP_PROJECT = None, VM_LABELS = None, VM_ZONES = None,
        SCALE_DOWN_ACTION = None, SCALE_UP_ACTION = None\<rparr>"
      "\<lparr>cp_list = (\<lambda>tr p z. ([], None)), cp_operate = (\<lambda>tr opn p z n. Inr ''op'')\<rparr>"
      "''p''" "[]" "\<lparr>name = ''a'', zone = ''z'', status = ''TERMINATED''\<rparr>"]
  by (simp add: prod_eq_iff)

subsection \<open>Runs that reach discovery\<close>

text \<open>
  C5 (idempotence): when every discovered instance is already in the desired state
  (STOPPED, TERMINATED or SUSPENDED for a request to scale down, RUNNING for a request
  to scale up), the run sends no request but the listings of discovery, one for each
  zone, and returns \<open>processed\<close> 0 with an empty \<open>results\<close> list, so that no entry
  of it has another status than skipped. (The message is the one of an empty discovery
  when nothing was discovered, and absent otherwise.)
\<close>

theorem stable_fleet_no_action:
  assumes "resolve_project env project_id = Some p" and "p \<noteq> []"
    and "get_instances_by_labels cp p [] (resolve_zones env zones)
           (resolve_labels env vm_labels) = (instances, tr)"
    and "(action = ''scale_down'' \<and>
            (\<forall>i \<in> set instances. status i \<in> set [''STOPPED'', ''TERMINATED'', ''SUSPENDED'']))
         \<or> (action = ''scale_up'' \<and> (\<forall>i \<in> set instances. status i = ''RUNNING''))"
  shows "process_scale_action env cp action project_id vm_labels zones =
     (Summary 0 [] (if instances = [] then Some ''No instances found'' else None),
      map (ListCall p) (resolve_zones env zones))"
proof -
  have "\<forall>i \<in> set instances. skips action (status i)"
    using assms(4) by (auto simp: skips_def)
  then have "instances_loop env cp p action instances ([], tr) = ([], tr)"
    by (rule instances_loop_skip_all)
  moreover have "tr = map (ListCall p) (resolve_zones env zones)"
    using assms(3) by (rule discovery_trace)
  ultimately show ?thesis
    by (simp add: run_after_discovery [OF assms(1-3)])
qed

theorem stable_fleet_no_action_witness:
  "process_scale_action
     \<lparr>GCP_PROJECT = Some ''proj'', VM_LABELS = None, VM_ZONES = Some ''z1'',
      SCALE_DOWN_ACTION = None, SCALE_UP_ACTION = None\<rparr>
     \<lparr>cp_list = (\<lambda>tr p z.
        ([\<lparr>inst_name = ''a'', inst_labels = [(''auto-schedule'', ''true'')],
           inst_status = ''TERMINATED''\<rparr>,
          \<lparr>inst_name = ''b'', inst_labels = [(''auto-schedule'', ''true'')],
           inst_status = ''SUSPENDED''\<rparr>], None)),
      cp_operate = (\<lambda>tr opn p z n. Inr ''op'')\<rparr>
     ''scale_down'' None None None =
   (Summary 0 [] None, [ListCall ''proj'' ''z1''])"
proof -
  let ?env = "\<lparr>GCP_PROJECT = Some ''proj'', VM_LABELS = None, VM_ZONES = Some ''z1'',
      SCALE_DOWN_ACTION = None, SCALE_UP_ACTION = None\<rparr>"
  let ?cp = "\<lparr>cp_list = (\<lambda>tr p z.
        ([\<lparr>inst_name = ''a'', inst_labels = [(''auto-schedule'', ''true'')],
           inst_status = ''TERMINATED''\<rparr>,
          \<lparr>inst_name = ''b'', inst_labels = [(''auto-schedule'', ''true'')],
           inst_status = ''SUSPENDED''\<rparr>], None)),
      cp_operate = (\<lambda>tr opn p z n. Inr ''op'')\<rparr>"
  have z: "resolve_zones ?env None = [''z1'']"
    by (simp add: resolve_zones_def zones_of_str_def environ_get_def strip_def isspace_def)
  have l: "resolve_labels ?env None = [\<lparr>label_key = ''auto-schedule'', label_value = ''true''\<rparr>]"
    by (simp add: resolve_labels_def labels_of_str_def environ_get_def split_first_def
        strip_def isspace_def)
  have p: "resolve_project ?env None = Some ''proj''"
    by (simp add: resolve_project_def falsy_def)
  have d: "get_instances_by_labels ?cp ''proj'' [] (resolve_zones ?env None)
      (resolve_labels ?env None) =
      ([\<lparr>name = ''a'', zone = ''z1'', status = ''TERMINATED''\<rparr>,
        \<lparr>name = ''b'', zone = ''z1'', status = ''SUSPENDED''\<rparr>], [ListCall ''proj'' ''z1''])"
    by (simp add: z l get_instances_by_labels_def list_zone_def matches_labels_def)
  show ?thesis
    using stable_fleet_no_action [OF p _ d, of "''scale_down''"] z by simp
qed

text \<open>
  C6: for an action that is neither \<open>scale_up\<close> nor \<open>scale_down\<close> and a discovery that
  found at least one instance, every discovered instance, whatever its state, gets an
  entry whose result is the error \<open>Unknown action: \<close> followed by the action; the run
  sends no request but the listings of discovery and returns the number of entries.
\<close>

theorem unknown_action_all_errors:
  assumes "resolve_project env project_id = Some p" and "p \<noteq> []"
    and "get_instances_by_labels cp p [] (resolve_zones env zones)
           (resolve_labels env vm_labels) = (instances, tr)"
    and "instances \<noteq> []"
    and "action \<noteq> ''scale_up''" and "action \<noteq> ''scale_down''"
  shows "process_scale_action env cp action project_id vm_labels zones =
     (Summary (length instances)
        (map (\<lambda>i. \<lparr>o_instance = name i, o_zone = zone i, o_action = action,
                    o_result = Error (''Unknown action: '' @ action)\<rparr>) instances)
        None,
      map (ListCall p) (resolve_zones env zones))"
proof -
  have "instances_loop env cp p action instances ([], tr) =
      ([] @ map (\<lambda>i. \<lparr>o_instance = name i, o_zone = zone i, o_action = action,
                       o_result = Error (''Unknown action: '' @ action)\<rparr>) instances, tr)"
    using assms(6) assms(5) by (rule instances_loop_unknown)
  moreover have "tr = map (ListCall p) (resolve_zones env zones)"
    using assms(3) by (rule discovery_trace)
  ultimately show ?thesis
    using assms(4) by (simp add: run_after_discovery [OF assms(1-3)])
qed

theorem unknown_action_all_errors_witness:
  "process_scale_action
     \<lparr>GCP_PROJECT = None, VM_LABELS = None, VM_ZONES = None,
      SCALE_DOWN_ACTION = None, SCALE_UP_ACTION = None\<rparr>
     \<lparr>cp_list = (\<lambda>tr p z.
        ([\<lparr>inst_name = ''a'', inst_labels = [(''tier'', ''web'')],
           inst_status = ''RUNNING''\<rparr>,
          \<lparr>inst_name = ''b'', inst_labels = [(''tier'', ''web'')],
           inst_status = ''STOPPED''\<rparr>], None)),
      cp_operate = (\<lambda>tr opn p z n. Inr ''op'')\<rparr>
     ''restart'' (Some ''proj'')
     (Some [\<lparr>label_key = ''tier'', label_value = ''web''\<rparr>]) (Some [''z1'']) =
   (Summary 2
      [\<lparr>o_instance = ''a'', o_zone = ''z1'', o_action = ''restart'',
        o_result = Error ''Unknown action: restart''\<rparr>,
       \<lparr>o_instance = ''b'', o_zone = ''z1'', o_action = ''restart'',
        o_result = Error ''Unknown action: restart''\<rparr>]
      None,
    [ListCall ''proj'' ''z1''])"
proof -
  let ?env = "\<lparr>GCP_PROJECT = None, VM_LABELS = None, VM_ZONES = None,
      SCALE_DOWN_ACTION = None, SCALE_UP_ACTION = None\<rparr>"
  let ?cp = "\<lparr>cp_list = (\<lambda>tr p z.
        ([\<lparr>inst_name = ''a'', inst_labels = [(''tier'', ''web'')],
           inst_status = ''RUNNING''\<rparr>,
          \<lparr>inst_name = ''b'', inst_labels = [(''tier'', ''web'')],
           inst_status = ''STOPPED''\<rparr>], None)),
      cp_operate = (\<lambda>tr opn p z n. Inr ''op'')\<rparr>"
  let ?ls = "Some [\<lparr>label_key = ''tier'', label_value = ''web''\<rparr>]"
  have z: "resolve_zones ?env (Some [''z1'']) = [''z1'']"
    by (simp add: resolve_zones_def)
  have l: "resolve_labels ?env ?ls = [\<lparr>label_key = ''tier'', label_value = ''web''\<rparr>]"
    by (simp add: resolve_labels_def)
  have p: "resolve_project ?env (Some ''proj'') = Some ''proj''"
    by (simp add: resolve_project_def falsy_def)
  have d: "get_instances_by_labels ?cp ''proj'' [] (resolve_zones ?env (Some [''z1'']))
      (resolve_labels ?env ?ls) =
      ([\<lparr>name = ''a'', zone = ''z1'', status = ''RUNNING''\<rparr>,
        \<lparr>name = ''b'', zone = ''z1'', status = ''STOPPED''\<rparr>], [ListCall ''proj'' ''z1''])"
    by (simp add: z l get_instances_by_labels_def list_zone_def matches_labels_def)
  show ?thesis
    using unknown_action_all_errors [OF p _ d, of "''restart''"] z by simp
qed

text \<open>
  C10: in every result of a run that reached discovery, \<open>processed\<close> is the length of
  \<open>results\<close>, and \<open>results\<close> holds one entry for each discovered instance that was not
  skipped, in discovery order, and none for a skipped one.
\<close>

theorem processed_is_length_of_results:
  assumes "process_scale_action env cp action project_id vm_labels zones =
             (Summary n rs m, tr')"
  shows "n = length rs \<and>
     (\<exists>p. resolve_project env project_id = Some p \<and>
        map (\<lambda>r. (o_instance r, o_zone r)) rs =
        map (\<lambda>i. (name i, zone i))
          (filter (\<lambda>i. \<not> skips action (status i))
             (fst (get_instances_by_labels cp p [] (resolve_zones env zones)
                     (resolve_labels env vm_labels)))))"
proof -
  obtain p where p: "resolve_project env project_id = Some p" "p \<noteq> []"
    using run_reaches_discovery [OF assms] by blast
  obtain instances tr where d:
    "get_instances_by_labels cp p [] (resolve_zones env zones)
       (resolve_labels env vm_labels) = (instances, tr)"
    by (cases "get_instances_by_labels cp p [] (resolve_zones env zones)
       (resolve_labels env vm_labels)")
  show ?thesis
    using run_records_unskipped [OF p d assms] p(1) d by simp
qed

theorem processed_is_length_of_results_witness:
  "process_scale_action
     \<lparr>GCP_PROJECT = None, VM_LABELS = None, VM_ZONES = None,
      SCALE_DOWN_ACTION = None, SCALE_UP_ACTION = None\<rparr>
     \<lparr>cp_list = (\<lambda>tr p z.
        ([\<lparr>inst_name = ''a'', inst_labels = [(''tier'', ''web'')],
           inst_status = ''RUNNING''\<rparr>,
          \<lparr>inst_name = ''b'', inst_labels = [(''tier'', ''web'')],
           inst_status = ''STOPPED''\<rparr>], None)),
      cp_operate = (\<lambda>tr opn p z n. Inl ''quota exceeded'')\<rparr>
     ''scale_up'' (Some ''proj'')
     (Some [\<lparr>label_key = ''tier'', label_value = ''web''\<rparr>]) (Some [''z1'']) =
   (Summary 1
      [\<lparr>o_instance = ''b'', o_zone = ''z1'', o_action = ''scale_up'',
        o_result = Error ''quota exceeded''\<rparr>]
      None,
    [ListCall ''proj'' ''z1'', OpCall Start ''proj'' ''z1'' ''b''])
   \<and> (1::nat) = length [\<lparr>o_instance = ''b'', o_zone = ''z1'', o_action = ''scale_up'',
        o_result = Error ''quota exceeded''\<rparr>]"
proof -
  let ?env = "\<lparr>GCP_PROJECT = None, VM_LABELS = None, VM_ZONES = None,
      SCALE_DOWN_ACTION = None, SCALE_UP_ACTION = None\<rparr>"
  let ?cp = "\<lparr>cp_list = (\<lambda>tr p z.
        ([\<lparr>inst_name = ''a'', inst_labels = [(''tier'', ''web'')],
           inst_status = ''RUNNING''\<rparr>,
          \<lparr>inst_name = ''b'', inst_labels = [(''tier'', ''web'')],
           inst_status = ''STOPPED''\<rparr>], None)),
      cp_operate = (\<lambda>tr opn p z n. Inl ''quota exceeded'')\<rparr>"
  have run: "process_scale_action ?env ?cp ''scale_up'' (Some ''proj'')
       (Some [\<lparr>label_key = ''tier'', label_value = ''web''\<rparr>]) (Some [''z1'']) =
     (Summary 1
        [\<lparr>o_instance = ''b'', o_zone = ''z1'', o_action = ''scale_up'',
          o_result = Error ''quota exceeded''\<rparr>]
        None,
      [ListCall ''proj'' ''z1'', OpCall Start ''proj'' ''z1'' ''b''])"
    by (simp add: process_scale_action_def resolve_project_def falsy_def resolve_zones_def
        resolve_labels_def get_instances_by_labels_def list_zone_def matches_labels_def
        process_instance_def skips_def perform_def environ_get_def start_instance_def
        run_operation_def)
  show ?thesis
    using processed_is_length_of_results [OF run] run by simp
qed

text \<open>
  C8 (isolation between instances): when every discovered instance needs the operation,
  the run sends one request for each of them, in discovery order, and records one entry
  for each, in the same order. The entry at index \<open>k\<close> is a success with the
  operation's name when the control plane accepted the request for that instance, and an
  error with the exception's text when it raised: a failure is recorded in the entry of
  its own instance, and the instances after it are still processed.
\<close>

theorem failure_stays_with_its_instance:
  assumes "resolve_project env project_id = Some p" and "p \<noteq> []"
    and "get_instances_by_labels cp p [] (resolve_zones env zones)
           (resolve_labels env vm_labels) = (instances, tr)"
    and "instances \<noteq> []"
    and "action = ''scale_down'' \<or> action = ''scale_up''"
    and "\<forall>i \<in> set instances. \<not> skips action (status i)"
  shows "process_scale_action env cp action project_id vm_labels zones =
     (Summary (length instances)
        (map (\<lambda>k. \<lparr>o_instance = name (instances ! k), o_zone = zone (instances ! k),
                    o_action = action,
                    o_result =
                      (case cp_operate cp
                              (tr @ map (\<lambda>i. OpCall (configured_operation env action) p
                                                (zone i) (name i)) (take k instances))
                              (configured_operation env action) p
                              (zone (instances ! k)) (name (instances ! k)) of
                         Inr operation_name \<Rightarrow> Success operation_name
                       | Inl e \<Rightarrow> Error e)\<rparr>)
           [0..<length instances])
        None,
      tr @ map (\<lambda>i. OpCall (configured_operation env action) p (zone i) (name i)) instances)"
  using assms(4)
  by (simp add: run_after_discovery [OF assms(1-3)]
      instances_loop_all_act [OF assms(5) assms(6)])

theorem failure_stays_with_its_instance_witness:
  "process_scale_action
     \<lparr>GCP_PROJECT = None, VM_LABELS = None, VM_ZONES = None,
      SCALE_DOWN_ACTION = None, SCALE_UP_ACTION = None\<rparr>
     \<lparr>cp_list = (\<lambda>tr p z.
        ([\<lparr>inst_name = ''i1'', inst_labels = [(''tier'', ''web'')],
           inst_status = ''RUNNING''\<rparr>,
          \<lparr>inst_name = ''i2'', inst_labels = [(''tier'', ''web'')],
           inst_status = ''RUNNING''\<rparr>,
          \<lparr>inst_name = ''i3'', inst_labels = [(''tier'', ''web'')],
           inst_status = ''PROVISIONING''\<rparr>], None)),
      cp_operate = (\<lambda>tr opn p z n. if n = ''i2'' then Inl ''permission denied''
                                      else Inr (''op-'' @ n))\<rparr>
     ''scale_down'' (Some ''proj'')
     (Some [\<lparr>label_key = ''tier'', label_value = ''web''\<rparr>]) (Some [''z1'']) =
   (Summary 3
      [\<lparr>o_instance = ''i1'', o_zone = ''z1'', o_action = ''scale_down'',
        o_result = Success ''op-i1''\<rparr>,
       \<lparr>o_instance = ''i2'', o_zone = ''z1'', o_action = ''scale_down'',
        o_result = Error ''permission denied''\<rparr>,
       \<lparr>o_instance = ''i3'', o_zone = ''z1'', o_action = ''scale_down'',
        o_result = Success ''op-i3''\<rparr>]
      None,
    [ListCall ''proj'' ''z1'', OpCall Stop ''proj'' ''z1'' ''i1'',
     OpCall Stop ''proj'' ''z1'' ''i2'', OpCall Stop ''proj'' ''z1'' ''i3''])"
proof -
  let ?env = "\<lparr>GCP_PROJECT = None, VM_LABELS = None, VM_ZONES = None,
      SCALE_DOWN_ACTION = None, SCALE_UP_ACTION = None\<rparr>"
  let ?cp = "\<lparr>cp_list = (\<lambda>tr p z.
        ([\<lparr>inst_name = ''i1'', inst_labels = [(''tier'', ''web'')],
           inst_status = ''RUNNING''\<rparr>,
          \<lparr>inst_name = ''i2'', inst_labels = [(''tier'', ''web'')],
           inst_status = ''RUNNING''\<rparr>,
          \<lparr>inst_name = ''i3'', inst_labels = [(''tier'', ''web'')],
           inst_status = ''PROVISIONING''\<rparr>], None)),
      cp_operate = (\<lambda>tr opn p z n. if n = ''i2'' then Inl ''permission denied''
                                      else Inr (''op-'' @ n))\<rparr>"
  let ?ls = "Some [\<lparr>label_key = ''tier'', label_value = ''web''\<rparr>]"
  have z: "resolve_zones ?env (Some [''z1'']) = [''z1'']"
    by (simp add: resolve_zones_def)
  have l: "resolve_labels ?env ?ls = [\<lparr>label_key = ''tier'', label_value = ''web''\<rparr>]"
    by (simp add: resolve_labels_def)
  have p: "resolve_project ?env (Some ''proj'') = Some ''proj''"
    by (simp add: resolve_project_def falsy_def)
  have d: "get_instances_by_labels ?cp ''proj'' [] (resolve_zones ?env (Some [''z1'']))
      (resolve_labels ?env ?ls) =
      ([\<lparr>name = ''i1'', zone = ''z1'', status = ''RUNNING''\<rparr>,
        \<lparr>name = ''i2'', zone = ''z1'', status = ''RUNNING''\<rparr>,
        \<lparr>name = ''i3'', zone = ''z1'', status = ''PROVISIONING''\<rparr>],
       [ListCall ''proj'' ''z1''])"
    by (simp add: z l get_instances_by_labels_def list_zone_def matches_labels_def)
  have c: "configured_operation ?env ''scale_down'' = Stop"
    by (simp add: configured_operation_def environ_get_def)
  have u: "[0..<3] = [0, 1, 2]"
    by (simp add: upt_rec)
  show ?thesis
    using failure_stays_with_its_instance [OF p _ d, of "''scale_down''"]
    by (simp add: c u skips_def)
qed

text \<open>
  C1, as the specification states it: a skipped instance is recorded in the results
  with status SKIPPED, so the fleet of a running \<open>a\<close> and a stopped \<open>b\<close> gives two
  entries. The run below, on that fleet with a control plane that accepts every request,
  returns one entry: line 174 leaves the loop body (\<open>continue\<close>) before line 194 appends,
  and no result of the program has a status other than success and error.
\<close>

theorem skipped_instance_counterexample:
  "process_scale_action
     \<lparr>GCP_PROJECT = None, VM_LABELS = None, VM_ZONES = None,
      SCALE_DOWN_ACTION = None, SCALE_UP_ACTION = None\<rparr>
     \<lparr>cp_list = (\<lambda>tr p z.
        ([\<lparr>inst_name = ''a'', inst_labels = [(''tier'', ''web'')],
           inst_status = ''RUNNING''\<rparr>,
          \<lparr>inst_name = ''b'', inst_labels = [(''tier'', ''web'')],
           inst_status = ''STOPPED''\<rparr>], None)),
      cp_operate = (\<lambda>tr opn p z n. Inr ''operation-1'')\<rparr>
     ''scale_down'' (Some ''proj'')
     (Some [\<lparr>label_key = ''tier'', label_value = ''web''\<rparr>]) (Some [''z1'']) =
   (Summary 1
      [\<lparr>o_instance = ''a'', o_zone = ''z1'', o_action = ''scale_down'',
        o_result = Success ''operation-1''\<rparr>]
      None,
    [ListCall ''proj'' ''z1'', OpCall Stop ''proj'' ''z1'' ''a''])"
  by (simp add: process_scale_action_def resolve_project_def falsy_def resolve_zones_def
      resolve_labels_def get_instances_by_labels_def list_zone_def matches_labels_def
      process_instance_def skips_def perform_def environ_get_def stop_instance_def
      run_operation_def)

text \<open>
  C1, amended: in a run with action \<open>scale_down\<close>, an instance whose state is STOPPED,
  TERMINATED or SUSPENDED gets no entry in the results: the entries are those of the
  other discovered instances, in discovery order. For the fleet of a running \<open>a\<close> and
  a stopped \<open>b\<close> and a control plane that accepts the request for \<open>a\<close>, the result
  is \<open>processed\<close> 1 with the single entry of \<open>a\<close>, a success.
\<close>

theorem skipped_instance_not_recorded:
  assumes "resolve_project env project_id = Some p" and "p \<noteq> []"
    and "get_instances_by_labels cp p [] (resolve_zones env zones)
           (resolve_labels env vm_labels) = (instances, tr)"
    and "process_scale_action env cp ''scale_down'' project_id vm_labels zones =
           (Summary n rs m, tr')"
  shows "map (\<lambda>r. (o_instance r, o_zone r)) rs =
           map (\<lambda>i. (name i, zone i))
             (filter (\<lambda>i. status i \<notin> set [''STOPPED'', ''TERMINATED'', ''SUSPENDED''])
                instances)
     \<and> (instances = [\<lparr>name = ''a'', zone = za, status = ''RUNNING''\<rparr>,
                       \<lparr>name = ''b'', zone = zb, status = ''STOPPED''\<rparr>] \<longrightarrow>
        cp_operate cp tr (configured_operation env ''scale_down'') p za ''a''
          = Inr operation_name \<longrightarrow>
        Summary n rs m =
          Summary 1 [\<lparr>o_instance = ''a'', o_zone = za, o_action = ''scale_down'',
                       o_result = Success operation_name\<rparr>] None)"
proof (intro conjI impI)
  have s: "\<And>st. (\<not> skips ''scale_down'' st) =
      (st \<notin> set [''STOPPED'', ''TERMINATED'', ''SUSPENDED''])"
    by (simp add: skips_def)
  show "map (\<lambda>r. (o_instance r, o_zone r)) rs =
      map (\<lambda>i. (name i, zone i))
        (filter (\<lambda>i. status i \<notin> set [''STOPPED'', ''TERMINATED'', ''SUSPENDED'']) instances)"
    using run_records_unskipped [OF assms] by (simp add: s)
next
  assume i: "instances = [\<lparr>name = ''a'', zone = za, status = ''RUNNING''\<rparr>,
                          \<lparr>name = ''b'', zone = zb, status = ''STOPPED''\<rparr>]"
    and c: "cp_operate cp tr (configured_operation env ''scale_down'') p za ''a''
          = Inr operation_name"
  have "instances_loop env cp p ''scale_down'' instances ([], tr) =
      ([\<lparr>o_instance = ''a'', o_zone = za, o_action = ''scale_down'',
         o_result = Success operation_name\<rparr>],
       tr @ [OpCall (configured_operation env ''scale_down'') p za ''a''])"
    using c by (simp add: i process_instance_def skips_def perform_known)
  with assms(4) i
  show "Summary n rs m =
      Summary 1 [\<lparr>o_instance = ''a'', o_zone = za, o_action = ''scale_down'',
                   o_result = Success operation_name\<rparr>] None"
    by (simp add: run_after_discovery [OF assms(1-3)])
qed

theorem skipped_instance_not_recorded_witness:
  "process_scale_action
     \<lparr>GCP_PROJECT = Some ''proj'', VM_LABELS = None, VM_ZONES = None,
      SCALE_DOWN_ACTION = Some ''SUSPEND'', SCALE_UP_ACTION = None\<rparr>
     \<lparr>cp_list = (\<lambda>tr p z.
        ([\<lparr>inst_name = ''a'', inst_labels = [(''tier'', ''web'')],
           inst_status = ''RUNNING''\<rparr>,
          \<lparr>inst_name = ''b'', inst_labels = [(''tier'', ''web'')],
           inst_status = ''STOPPED''\<rparr>], None)),
      cp_operate = (\<lambda>tr opn p z n. Inr ''operation-7'')\<rparr>
     ''scale_down'' None
     (Some [\<lparr>label_key = ''tier'', label_value = ''web''\<rparr>]) (Some [''z1'']) =
   (Summary 1
      [\<lparr>o_instance = ''a'', o_zone = ''z1'', o_action = ''scale_down'',
        o_result = Success ''operation-7''\<rparr>]
      None,
    [ListCall ''proj'' ''z1'', OpCall Suspend ''proj'' ''z1'' ''a''])
   \<and> map (\<lambda>i. (name i, zone i))
        (filter (\<lambda>i. status i \<notin> set [''STOPPED'', ''TERMINATED'', ''SUSPENDED''])
           [\<lparr>name = ''a'', zone = ''z1'', status = ''RUNNING''\<rparr>,
            \<lparr>name = ''b'', zone = ''z1'', status = ''STOPPED''\<rparr>]) = [(''a'', ''z1'')]"
proof -
  let ?env = "\<lparr>GCP_PROJECT = Some ''proj'', VM_LABELS = None, VM_ZONES = None,
      SCALE_DOWN_ACTION = Some ''SUSPEND'', SCALE_UP_ACTION = None\<rparr>"
  let ?cp = "\<lparr>cp_list = (\<lambda>tr p z.
        ([\<lparr>inst_name = ''a'', inst_labels = [(''tier'', ''web'')],
           inst_status = ''RUNNING''\<rparr>,
          \<lparr>inst_name = ''b'', inst_labels = [(''tier'', ''web'')],
           inst_status = ''STOPPED''\<rparr>], None)),
      cp_operate = (\<lambda>tr opn p z n. Inr ''operation-7'')\<rparr>"
  let ?ls = "Some [\<lparr>label_key = ''tier'', label_value = ''web''\<rparr>]"
  have p: "resolve_project ?env None = Some ''proj''"
    by (simp add: resolve_project_def falsy_def)
  have d: "get_instances_by_labels ?cp ''proj'' [] (resolve_zones ?env (Some [''z1'']))
      (resolve_labels ?env ?ls) =
      ([\<lparr>name = ''a'', zone = ''z1'', status = ''RUNNING''\<rparr>,
        \<lparr>name = ''b'', zone = ''z1'', status = ''STOPPED''\<rparr>], [ListCall ''proj'' ''z1''])"
    by (simp add: resolve_zones_def resolve_labels_def get_instances_by_labels_def
        list_zone_def matches_labels_def)
  have run: "process_scale_action ?env ?cp ''scale_down'' None ?ls (Some [''z1'']) =
     (Summary 1
        [\<lparr>o_instance = ''a'', o_zone = ''z1'', o_action = ''scale_down'',
          o_result = Success ''operation-7''\<rparr>]
        None,
      [ListCall ''proj'' ''z1'', OpCall Suspend ''proj'' ''z1'' ''a''])"
    by (simp add: process_scale_action_def resolve_project_def falsy_def resolve_zones_def
        resolve_labels_def get_instances_by_labels_def list_zone_def matches_labels_def
        process_instance_def skips_def perform_def environ_get_def suspend_instance_def
        run_operation_def)
  show ?thesis
    using skipped_instance_not_recorded [OF p _ d run, of "''z1''" "''z1''" "''operation-7''"] run
    by simp
qed

subsection \<open>Discovery\<close>

text \<open>
  C7, as the specification states it: a zone whose listing fails contributes no instance.
  Below, the listing of \<open>z2\<close> yields the instance \<open>b\<close> and then raises (the fetch of
  the next page fails); \<open>b\<close> was appended at line 38 before the exception reached
  line 44, and it is in the result.
\<close>

theorem failed_zone_counterexample:
  "snd (cp_list
     \<lparr>cp_list = (\<lambda>tr p z.
        if z = ''z2''
        then ([\<lparr>inst_name = ''b'', inst_labels = [(''tier'', ''web'')],
                inst_status = ''RUNNING''\<rparr>], Some ''page fetch failed'')
        else ([\<lparr>inst_name = ''a'', inst_labels = [(''tier'', ''web'')],
                inst_status = ''RUNNING''\<rparr>], None)),
      cp_operate = (\<lambda>tr opn p z n. Inr ''op'')\<rparr>
     [ListCall ''proj'' ''z1''] ''proj'' ''z2'') = Some ''page fetch failed''
   \<and> get_instances_by_labels
     \<lparr>cp_list = (\<lambda>tr p z.
        if z = ''z2''
        then ([\<lparr>inst_name = ''b'', inst_labels = [(''tier'', ''web'')],
                inst_status = ''RUNNING''\<rparr>], Some ''page fetch failed'')
        else ([\<lparr>inst_name = ''a'', inst_labels = [(''tier'', ''web'')],
                inst_status = ''RUNNING''\<rparr>], None)),
      cp_operate = (\<lambda>tr opn p z n. Inr ''op'')\<rparr>
     ''proj'' [] [''z1'', ''z2''] [\<lparr>label_key = ''tier'', label_value = ''web''\<rparr>] =
   ([\<lparr>name = ''a'', zone = ''z1'', status = ''RUNNING''\<rparr>,
     \<lparr>name = ''b'', zone = ''z2'', status = ''RUNNING''\<rparr>],
    [ListCall ''proj'' ''z1'', ListCall ''proj'' ''z2''])"
  by (simp add: get_instances_by_labels_def list_zone_def matches_labels_def)

text \<open>
  C7, amended: discovery always returns, whatever listing fails. It lists every zone
  once, in the order given, and its result is, zone after zone, the matching instances
  the zone's listing yielded, whether that listing then failed or not. So a zone whose
  listing fails before it yields an instance contributes nothing, a zone whose listing
  fails later contributes the matching instances yielded before the failure, and every
  matching instance yielded in any zone is in the result.
\<close>

theorem discovery_survives_zone_failures:
  "get_instances_by_labels cp p tr zs ls =
     (concat (map (\<lambda>k. map (\<lambda>i. \<lparr>name = inst_name i, zone = zs ! k, status = inst_status i\<rparr>)
                          (filter (\<lambda>i. matches_labels (inst_labels i) ls)
                             (fst (cp_list cp (tr @ map (ListCall p) (take k zs)) p (zs ! k)))))
                [0..<length zs]),
      tr @ map (ListCall p) zs)
   \<and> (\<forall>k < length zs.
        fst (cp_list cp (tr @ map (ListCall p) (take k zs)) p (zs ! k)) = [] \<longrightarrow>
        list_zone cp p (tr @ map (ListCall p) (take k zs)) (zs ! k) ls = [])
   \<and> (\<forall>k < length zs.
        \<forall>i \<in> set (fst (cp_list cp (tr @ map (ListCall p) (take k zs)) p (zs ! k))).
          matches_labels (inst_labels i) ls \<longrightarrow>
          \<lparr>name = inst_name i, zone = zs ! k, status = inst_status i\<rparr>
            \<in> set (fst (get_instances_by_labels cp p tr zs ls)))"
proof (intro conjI allI impI ballI)
  show "get_instances_by_labels cp p tr zs ls =
     (concat (map (\<lambda>k. map (\<lambda>i. \<lparr>name = inst_name i, zone = zs ! k, status = inst_status i\<rparr>)
                          (filter (\<lambda>i. matches_labels (inst_labels i) ls)
                             (fst (cp_list cp (tr @ map (ListCall p) (take k zs)) p (zs ! k)))))
                [0..<length zs]),
      tr @ map (ListCall p) zs)"
    by (simp add: get_instances_by_labels_def zones_loop_eq list_zone_def)
next
  fix k
  assume "fst (cp_list cp (tr @ map (ListCall p) (take k zs)) p (zs ! k)) = []"
  then show "list_zone cp p (tr @ map (ListCall p) (take k zs)) (zs ! k) ls = []"
    by (simp add: list_zone_def)
next
  fix k i
  assume k: "k < length zs"
    and i: "i \<in> set (fst (cp_list cp (tr @ map (ListCall p) (take k zs)) p (zs ! k)))"
    and m: "matches_labels (inst_labels i) ls"
  have "\<lparr>name = inst_name i, zone = zs ! k, status = inst_status i\<rparr>
      \<in> set (list_zone cp p (tr @ map (ListCall p) (take k zs)) (zs ! k) ls)"
    using i m by (auto simp: list_zone_def)
  with k show "\<lparr>name = inst_name i, zone = zs ! k, status = inst_status i\<rparr>
      \<in> set (fst (get_instances_by_labels cp p tr zs ls))"
    by (auto simp: get_instances_by_labels_def zones_loop_eq)
qed

theorem discovery_survives_zone_failures_witness:
  "get_instances_by_labels
     \<lparr>cp_list = (\<lambda>tr p z.
        if z = ''z2'' then ([], Some ''zone unreachable'')
        else ([\<lparr>inst_name = ''a'', inst_labels = [(''tier'', ''web'')],
                inst_status = ''RUNNING''\<rparr>,
               \<lparr>inst_name = ''c'', inst_labels = [(''tier'', ''db'')],
                inst_status = ''RUNNING''\<rparr>], None)),
      cp_operate = (\<lambda>tr opn p z n. Inr ''op'')\<rparr>
     ''proj'' [] [''z2'', ''z1''] [\<lparr>label_key = ''tier'', label_value = ''web''\<rparr>] =
   ([\<lparr>name = ''a'', zone = ''z1'', status = ''RUNNING''\<rparr>],
    [ListCall ''proj'' ''z2'', ListCall ''proj'' ''z1''])"
proof -
  have u: "[0..<2] = [0, 1]"
    by (simp add: upt_rec)
  show ?thesis
    using discovery_survives_zone_failures [of
      "\<lparr>cp_list = (\<lambda>tr p z.
        if z = ''z2'' then ([], Some ''zone unreachable'')
        else ([\<lparr>inst_name = ''a'', inst_labels = [(''tier'', ''web'')],
                inst_status = ''RUNNING''\<rparr>,
               \<lparr>inst_name = ''c'', inst_labels = [(''tier'', ''db'')],
                inst_status = ''RUNNING''\<rparr>], None)),
      cp_operate = (\<lambda>tr opn p z n. Inr ''op'')\<rparr>"
      "''proj''" "[]" "[''z2'', ''z1'']" "[\<lparr>label_key = ''tier'', label_value = ''web''\<rparr>]"]
    by (simp add: u matches_labels_def)
qed

text \<open>
  C2, as the specification states it: with an empty selector discovery matches no
  instance and the run does nothing. Below, \<open>VM_LABELS\<close> is written with \<open>=\<close> in place
  of the colon, so line 150 drops its only piece and the selector is empty; the loop
  of the matcher then has nothing to reject, the labelled instance \<open>a\<close> is discovered,
  and the run stops it.
\<close>

theorem empty_selector_counterexample:
  "resolve_labels
     \<lparr>GCP_PROJECT = Some ''proj'', VM_LABELS = Some ''auto-schedule=true'',
      VM_ZONES = Some ''z1'', SCALE_DOWN_ACTION = None, SCALE_UP_ACTION = None\<rparr> None = []
   \<and> process_scale_action
     \<lparr>GCP_PROJECT = Some ''proj'', VM_LABELS = Some ''auto-schedule=true'',
      VM_ZONES = Some ''z1'', SCALE_DOWN_ACTION = None, SCALE_UP_ACTION = None\<rparr>
     \<lparr>cp_list = (\<lambda>tr p z.
        ([\<lparr>inst_name = ''a'', inst_labels = [(''team'', ''billing'')],
           inst_status = ''RUNNING''\<rparr>], None)),
      cp_operate = (\<lambda>tr opn p z n. Inr ''operation-1'')\<rparr>
     ''scale_down'' None None None =
   (Summary 1
      [\<lparr>o_instance = ''a'', o_zone = ''z1'', o_action = ''scale_down'',
        o_result = Success ''operation-1''\<rparr>]
      None,
    [ListCall ''proj'' ''z1'', OpCall Stop ''proj'' ''z1'' ''a''])"
proof -
  let ?env = "\<lparr>GCP_PROJECT = Some ''proj'', VM_LABELS = Some ''auto-schedule=true'',
      VM_ZONES = Some ''z1'', SCALE_DOWN_ACTION = None, SCALE_UP_ACTION = None\<rparr>"
  have l: "resolve_labels ?env None = []"
    by (simp add: resolve_labels_def labels_of_str_def environ_get_def)
  have z: "resolve_zones ?env None = [''z1'']"
    by (simp add: resolve_zones_def zones_of_str_def environ_get_def strip_def isspace_def)
  show ?thesis
    by (simp add: l z process_scale_action_def resolve_project_def falsy_def
        get_instances_by_labels_def list_zone_def matches_labels_def
        process_instance_def skips_def perform_def environ_get_def stop_instance_def
        run_operation_def)
qed

text \<open>
  C2, amended: for a request that resolves to an empty selector, discovery matches
  exactly the listed instances that carry at least one label, in every zone; when no
  listed instance carries a label, the run sends no request but the listings and
  returns \<open>processed\<close> 0, no results and the message \<open>No instances found\<close>.
\<close>

theorem empty_selector_matches_labelled:
  assumes "resolve_labels env vm_labels = []"
  shows "fst (get_instances_by_labels cp p tr zs (resolve_labels env vm_labels)) =
      concat (map (\<lambda>k. map (\<lambda>i. \<lparr>name = inst_name i, zone = zs ! k, status = inst_status i\<rparr>)
                          (filter (\<lambda>i. inst_labels i \<noteq> [])
                             (fst (cp_list cp (tr @ map (ListCall p) (take k zs)) p (zs ! k)))))
                [0..<length zs])
   \<and> (resolve_project env project_id = Some p \<longrightarrow> p \<noteq> [] \<longrightarrow>
       (\<forall>k < length (resolve_zones env zones).
          \<forall>i \<in> set (fst (cp_list cp (map (ListCall p) (take k (resolve_zones env zones))) p
                            (resolve_zones env zones ! k))).
            inst_labels i = []) \<longrightarrow>
       process_scale_action env cp action project_id vm_labels zones =
         (Summary 0 [] (Some ''No instances found''),
          map (ListCall p) (resolve_zones env zones)))"
proof (intro conjI impI)
  have m: "\<And>L. matches_labels L [] = (L \<noteq> [])"
    by (simp add: matches_labels_def)
  show "fst (get_instances_by_labels cp p tr zs (resolve_labels env vm_labels)) =
      concat (map (\<lambda>k. map (\<lambda>i. \<lparr>name = inst_name i, zone = zs ! k, status = inst_status i\<rparr>)
                          (filter (\<lambda>i. inst_labels i \<noteq> [])
                             (fst (cp_list cp (tr @ map (ListCall p) (take k zs)) p (zs ! k)))))
                [0..<length zs])"
    by (simp add: assms get_instances_by_labels_def zones_loop_eq list_zone_def m)
next
  let ?zs = "resolve_zones env zones"
  assume p: "resolve_project env project_id = Some p" "p \<noteq> []"
    and none: "\<forall>k < length ?zs.
          \<forall>i \<in> set (fst (cp_list cp (map (ListCall p) (take k ?zs)) p (?zs ! k))).
            inst_labels i = []"
  have "\<And>k. k < length ?zs \<Longrightarrow> list_zone cp p (map (ListCall p) (take k ?zs)) (?zs ! k) [] = []"
    using none by (simp add: list_zone_def matches_labels_def)
  then have d: "get_instances_by_labels cp p [] ?zs (resolve_labels env vm_labels) =
      ([], map (ListCall p) ?zs)"
    by (simp add: assms get_instances_by_labels_def zones_loop_eq)
  show "process_scale_action env cp action project_id vm_labels zones =
         (Summary 0 [] (Some ''No instances found''), map (ListCall p) ?zs)"
    by (simp add: run_after_discovery [OF p d])
qed

theorem empty_selector_matches_labelled_witness:
  "resolve_labels
     \<lparr>GCP_PROJECT = Some ''proj'', VM_LABELS = Some '''',
      VM_ZONES = Some ''z1'', SCALE_DOWN_ACTION = None, SCALE_UP_ACTION = None\<rparr> (Some []) = []
   \<and> process_scale_action
     \<lparr>GCP_PROJECT = Some ''proj'', VM_LABELS = Some '''',
      VM_ZONES = Some ''z1'', SCALE_DOWN_ACTION = None, SCALE_UP_ACTION = None\<rparr>
     \<lparr>cp_list = (\<lambda>tr p z.
        ([\<lparr>inst_name = ''a'', inst_labels = [], inst_status = ''RUNNING''\<rparr>], None)),
      cp_operate = (\<lambda>tr opn p z n. Inr ''operation-1'')\<rparr>
     ''scale_down'' None (Some []) None =
   (Summary 0 [] (Some ''No instances found''), [ListCall ''proj'' ''z1''])"
proof -
  let ?env = "\<lparr>GCP_PROJECT = Some ''proj'', VM_LABELS = Some '''',
      VM_ZONES = Some ''z1'', SCALE_DOWN_ACTION = None, SCALE_UP_ACTION = None\<rparr>"
  let ?cp = "\<lparr>cp_list = (\<lambda>tr p z.
        ([\<lparr>inst_name = ''a'', inst_labels = [], inst_status = ''RUNNING''\<rparr>], None)),
      cp_operate = (\<lambda>tr opn p z n. Inr ''operation-1'')\<rparr>"
  have l: "resolve_labels ?env (Some []) = []"
    by (simp add: resolve_labels_def labels_of_str_def environ_get_def)
  have z: "resolve_zones ?env None = [''z1'']"
    by (simp add: resolve_zones_def zones_of_str_def environ_get_def strip_def isspace_def)
  have p: "resolve_project ?env None = Some ''proj''"
    by (simp add: resolve_project_def falsy_def)
  show ?thesis
    using empty_selector_matches_labelled [OF l, of ?cp "''proj''" "[]" "[]" None None
        "''scale_down''"] l
    by (simp add: z p)
qed

end
